theory Spec2Isabelle
  imports Main
begin

section \<open>Data model\<close>

text \<open>
  The storefront of \<^verbatim>\<open>app.py\<close>: a catalogue held in an SQLite file, a cart held in the
  client session, and six routes. A Python \<^verbatim>\<open>str\<close> is the \<^typ>\<open>string\<close> of its UTF-8
  bytes. Python's \<^verbatim>\<open>int\<close> is \<^typ>\<open>int\<close>.
\<close>

record product =
  pid :: int
  name :: string
  description :: string
  price :: int
  image_url :: string

record order =
  order_id :: int
  created_at :: string

record order_item =
  item_id :: int
  item_order_id :: int
  item_product_id :: int
  item_quantity :: int

text \<open>
  The database file once it exists: the rows of its three tables in storage order, and for
  the two tables the program inserts into, the \<^verbatim>\<open>AUTOINCREMENT\<close> high-water mark that
  SQLite keeps in \<^verbatim>\<open>sqlite_sequence\<close>. The store is \<^verbatim>\<open>None\<close> while
  \<^verbatim>\<open>DB_PATH\<close> does not exist. A file that exists is taken to hold the schema, as
  \<^verbatim>\<open>init_db\<close> leaves it; failures of the store itself are outside the model.
\<close>

record db =
  products :: "product list"
  products_seq :: int
  orders :: "order list"
  orders_seq :: int
  order_items :: "order_item list"

type_synonym store = "db option"

text \<open>
  The session may hold any value under a key. \<open>pyval\<close> has the values that the JSON of a
  session cookie can carry, floating-point numbers left out: their arithmetic is not
  modelled. A dict is an association list in insertion order, its keys strings as in JSON.
  The cart is whatever dict the session holds under \<^verbatim>\<open>cart\<close>; the annotation
  \<^verbatim>\<open>dict[str, int]\<close> of the source is not checked when the program runs, so the values
  of a cart are of type \<open>pyval\<close>.
\<close>

datatype pyval =
    PyNone
  | PyBool bool
  | PyInt int
  | PyStr string
  | PyList "pyval list"
  | PyDict "(string \<times> pyval) list"

type_synonym cart = "(string \<times> pyval) list"

type_synonym session = "string \<rightharpoonup> pyval"

datatype error = ValueError | OverflowError | TypeError

record cart_line =
  line_product :: product
  line_quantity :: pyval
  line_item_total :: pyval

text \<open>
  A response is either one of the five templates with the values handed to it, or a
  redirect to a path. \<open>Not_found_html\<close> is sent with status 404.
\<close>

datatype response =
    Index_html "product list" pyval
  | Product_html product
  | Not_found_html
  | Cart_html "cart_line list" pyval
  | Checkout_html
  | Redirect string

section \<open>Python and SQLite primitives\<close>

subsection \<open>Dictionaries\<close>

text \<open>\<^verbatim>\<open>d.get(k, default)\<close>, \<^verbatim>\<open>d[k] = v\<close> (in place for a key already there, at
  the end for a new one), \<^verbatim>\<open>k in d\<close>, \<^verbatim>\<open>d.pop(k)\<close> for a key that is there, and
  \<^verbatim>\<open>d.values()\<close>.\<close>

fun dict_get :: "('k \<times> 'v) list \<Rightarrow> 'k \<Rightarrow> 'v \<Rightarrow> 'v" where
  "dict_get [] k dflt = dflt"
| "dict_get ((k', v) # kvs) k dflt = (if k' = k then v else dict_get kvs k dflt)"

fun dict_set :: "('k \<times> 'v) list \<Rightarrow> 'k \<Rightarrow> 'v \<Rightarrow> ('k \<times> 'v) list" where
  "dict_set [] k v = [(k, v)]"
| "dict_set ((k', v') # kvs) k v =
     (if k' = k then (k, v) # kvs else (k', v') # dict_set kvs k v)"

fun dict_contains :: "('k \<times> 'v) list \<Rightarrow> 'k \<Rightarrow> bool" where
  "dict_contains [] k = False"
| "dict_contains ((k', v) # kvs) k = (k' = k \<or> dict_contains kvs k)"

fun dict_pop :: "('k \<times> 'v) list \<Rightarrow> 'k \<Rightarrow> ('k \<times> 'v) list" where
  "dict_pop [] k = []"
| "dict_pop ((k', v) # kvs) k = (if k' = k then kvs else (k', v) # dict_pop kvs k)"

definition dict_values :: "('k \<times> 'v) list \<Rightarrow> 'v list" where
  "dict_values kvs = map snd kvs"

text \<open>A Python dict holds each key once.\<close>

definition is_dict :: "('k \<times> 'v) list \<Rightarrow> bool" where
  "is_dict kvs = distinct (map fst kvs)"

subsection \<open>Arithmetic on values\<close>

text \<open>
  \<^verbatim>\<open>bool\<close> is a subclass of \<^verbatim>\<open>int\<close>: \<^verbatim>\<open>True\<close> counts as 1 and \<^verbatim>\<open>False\<close> as 0.
  \<^verbatim>\<open>a + b\<close> adds two numbers and joins two strings or two lists; \<^verbatim>\<open>a * b\<close> multiplies
  two numbers and repeats a string or a list a number of times (no times for a negative
  number). Every other pair of operands raises \<^verbatim>\<open>TypeError\<close>. Running out of memory on
  a long repetition is outside the model.
\<close>

definition as_int :: "pyval \<Rightarrow> int option" where
  "as_int v =
     (case v of PyInt n \<Rightarrow> Some n | PyBool b \<Rightarrow> Some (if b then 1 else 0) | _ \<Rightarrow> None)"

definition py_repeat :: "int \<Rightarrow> 'a list \<Rightarrow> 'a list" where
  "py_repeat n xs = concat (replicate (nat n) xs)"

fun py_add :: "pyval \<Rightarrow> pyval \<Rightarrow> error + pyval" where
  "py_add (PyStr x) (PyStr y) = Inr (PyStr (x @ y))"
| "py_add (PyList x) (PyList y) = Inr (PyList (x @ y))"
| "py_add a b =
     (case as_int a of
        None \<Rightarrow> Inl TypeError
      | Some m \<Rightarrow> (case as_int b of None \<Rightarrow> Inl TypeError | Some n \<Rightarrow> Inr (PyInt (m + n))))"

fun py_mul :: "pyval \<Rightarrow> pyval \<Rightarrow> error + pyval" where
  "py_mul (PyStr x) b =
     (case as_int b of None \<Rightarrow> Inl TypeError | Some n \<Rightarrow> Inr (PyStr (py_repeat n x)))"
| "py_mul (PyList x) b =
     (case as_int b of None \<Rightarrow> Inl TypeError | Some n \<Rightarrow> Inr (PyList (py_repeat n x)))"
| "py_mul a (PyStr y) =
     (case as_int a of None \<Rightarrow> Inl TypeError | Some n \<Rightarrow> Inr (PyStr (py_repeat n y)))"
| "py_mul a (PyList y) =
     (case as_int a of None \<Rightarrow> Inl TypeError | Some n \<Rightarrow> Inr (PyList (py_repeat n y)))"
| "py_mul a b =
     (case as_int a of
        None \<Rightarrow> Inl TypeError
      | Some m \<Rightarrow> (case as_int b of None \<Rightarrow> Inl TypeError | Some n \<Rightarrow> Inr (PyInt (m * n))))"

text \<open>\<^verbatim>\<open>sum(values)\<close> is \<open>py_sum values (PyInt 0)\<close>: it adds the values to 0 from left to
  right.\<close>

fun py_sum :: "pyval list \<Rightarrow> pyval \<Rightarrow> error + pyval" where
  "py_sum [] acc = Inr acc"
| "py_sum (v # vs) acc = (case py_add acc v of Inl e \<Rightarrow> Inl e | Inr acc' \<Rightarrow> py_sum vs acc')"

subsection \<open>\<^verbatim>\<open>int(str)\<close>\<close>

text \<open>
  \<^verbatim>\<open>int(s)\<close> in base 10, as CPython 3.11 computes it. The string is read as code points.
  A code point from 127 on is replaced: white space by a blank, a decimal digit of any
  script (category Nd of Unicode 14.0, blocks of ten consecutive code points) by the ASCII
  digit of the same value, anything else by a question mark. Then white space is stripped at
  both ends, one sign may lead, and what is left must be decimal digits, with single
  underscores allowed between two digits, and at most 4300 digits (the default of
  \<^verbatim>\<open>sys.int_max_str_digits\<close>). Anything else raises \<^verbatim>\<open>ValueError\<close>.
\<close>

definition utf8_cont :: "char \<Rightarrow> bool" where
  "utf8_cont c = (0x80 \<le> (of_char c :: nat) \<and> (of_char c :: nat) < 0xC0)"

definition cont_bits :: "char \<Rightarrow> nat" where
  "cont_bits c = of_char c - 0x80"

fun utf8_decode :: "string \<Rightarrow> nat list option" where
  "utf8_decode [] = Some []"
| "utf8_decode (c # cs) =
     (let b = (of_char c :: nat) in
      if b < 0x80 then map_option ((#) b) (utf8_decode cs)
      else if 0xC0 \<le> b \<and> b < 0xE0 then
        (case cs of
           c1 # r \<Rightarrow>
             if utf8_cont c1
             then map_option ((#) ((b - 0xC0) * 64 + cont_bits c1)) (utf8_decode r)
             else None
         | _ \<Rightarrow> None)
      else if 0xE0 \<le> b \<and> b < 0xF0 then
        (case cs of
           c1 # c2 # r \<Rightarrow>
             if utf8_cont c1 \<and> utf8_cont c2
             then map_option
                    ((#) (((b - 0xE0) * 64 + cont_bits c1) * 64 + cont_bits c2))
                    (utf8_decode r)
             else None
         | _ \<Rightarrow> None)
      else if 0xF0 \<le> b \<and> b < 0xF8 then
        (case cs of
           c1 # c2 # c3 # r \<Rightarrow>
             if utf8_cont c1 \<and> utf8_cont c2 \<and> utf8_cont c3
             then map_option
                    ((#) ((((b - 0xF0) * 64 + cont_bits c1) * 64 + cont_bits c2) * 64
                          + cont_bits c3))
                    (utf8_decode r)
             else None
         | _ \<Rightarrow> None)
      else None)"

text \<open>The first code point of each block of ten decimal digits, and the white space from
  code point 127 on.\<close>

definition decimal_blocks :: "nat list" where
  "decimal_blocks =
     [0x30, 0x660, 0x6F0, 0x7C0, 0x966, 0x9E6, 0xA66, 0xAE6, 0xB66, 0xBE6,
      0xC66, 0xCE6, 0xD66, 0xDE6, 0xE50, 0xED0, 0xF20, 0x1040, 0x1090,
      0x17E0, 0x1810, 0x1946, 0x19D0, 0x1A80, 0x1A90, 0x1B50, 0x1BB0, 0x1C40,
      0x1C50, 0xA620, 0xA8D0, 0xA900, 0xA9D0, 0xA9F0, 0xAA50, 0xABF0, 0xFF10,
      0x104A0, 0x10D30, 0x11066, 0x110F0, 0x11136, 0x111D0, 0x112F0, 0x11450,
      0x114D0, 0x11650, 0x116C0, 0x11730, 0x118E0, 0x11950, 0x11C50, 0x11D50,
      0x11DA0, 0x16A60, 0x16AC0, 0x16B50, 0x1D7CE, 0x1D7D8, 0x1D7E2, 0x1D7EC,
      0x1D7F6, 0x1E140, 0x1E2F0, 0x1E950, 0x1FBF0]"

definition unicode_spaces :: "nat list" where
  "unicode_spaces =
     [0x85, 0xA0, 0x1680, 0x2000, 0x2001, 0x2002, 0x2003, 0x2004, 0x2005,
      0x2006, 0x2007, 0x2008, 0x2009, 0x200A, 0x2028, 0x2029, 0x202F, 0x205F,
      0x3000]"

definition py_todecimal :: "nat \<Rightarrow> nat option" where
  "py_todecimal cp =
     map_option (\<lambda>start. cp - start)
       (find (\<lambda>start. start \<le> cp \<and> cp < start + 10) decimal_blocks)"

text \<open>The ASCII code that stands for a code point: 32 is the blank, 48 to 57 are the
  digits, 63 is the question mark.\<close>

definition to_ascii :: "nat \<Rightarrow> nat" where
  "to_ascii cp =
     (if cp < 127 then cp
      else if cp \<in> set unicode_spaces then 32
      else case py_todecimal cp of Some d \<Rightarrow> 48 + d | None \<Rightarrow> 63)"

definition py_isspace :: "nat \<Rightarrow> bool" where
  "py_isspace c = (c \<in> set [0x09, 0x0A, 0x0B, 0x0C, 0x0D, 0x20])"

definition py_isdigit :: "nat \<Rightarrow> bool" where
  "py_isdigit c = (48 \<le> c \<and> c \<le> 57)"

definition digit_val :: "nat \<Rightarrow> int" where
  "digit_val c = int c - 48"

definition py_strip :: "nat list \<Rightarrow> nat list" where
  "py_strip s = rev (dropWhile py_isspace (rev (dropWhile py_isspace s)))"

text \<open>The digits, 95 being the underscore.\<close>

fun parse_digits :: "nat list \<Rightarrow> int \<Rightarrow> error + int" where
  "parse_digits [] acc = Inl ValueError"
| "parse_digits (c # cs) acc =
     (if py_isdigit c then
        (let acc' = acc * 10 + digit_val c in
         case cs of
           [] \<Rightarrow> Inr acc'
         | c' # cs' \<Rightarrow> if c' = 95 then parse_digits cs' acc' else parse_digits cs acc')
      else Inl ValueError)"

definition int_max_str_digits :: nat where
  "int_max_str_digits = 4300"

text \<open>The sign, 45 being the minus and 43 the plus.\<close>

definition py_int :: "string \<Rightarrow> error + int" where
  "py_int s =
     (case utf8_decode s of
        None \<Rightarrow> Inl ValueError
      | Some cps \<Rightarrow>
          (case py_strip (map to_ascii cps) of
             [] \<Rightarrow> Inl ValueError
           | c # cs \<Rightarrow>
               (let body = (if c = 45 \<or> c = 43 then cs else c # cs) in
                if int_max_str_digits < length (filter py_isdigit body) then Inl ValueError
                else if c = 45 then map_sum id uminus (parse_digits body 0)
                else parse_digits body 0)))"

subsection \<open>SQLite\<close>

text \<open>A bound parameter must fit SQLite's 64-bit \<^verbatim>\<open>INTEGER\<close>; the \<^verbatim>\<open>sqlite3\<close>
  module raises \<^verbatim>\<open>OverflowError\<close> otherwise.\<close>

definition sqlite_int_ok :: "int \<Rightarrow> bool" where
  "sqlite_int_ok i = (- (2 ^ 63) \<le> i \<and> i < 2 ^ 63)"

text \<open>The row id an \<^verbatim>\<open>AUTOINCREMENT\<close> column gives a new row: one more than the largest
  id the table has ever held.\<close>

definition next_rowid :: "int \<Rightarrow> int list \<Rightarrow> int" where
  "next_rowid seq ids = fold max ids seq + 1"

definition insert_product :: "string \<times> string \<times> int \<times> string \<Rightarrow> db \<Rightarrow> db" where
  "insert_product row d =
     (case row of (n, ds, p, u) \<Rightarrow>
        (let i = next_rowid (products_seq d) (map pid (products d)) in
         d\<lparr>products := products d @
              [\<lparr>pid = i, name = n, description = ds, price = p, image_url = u\<rparr>],
           products_seq := i\<rparr>))"

definition insert_order :: "string \<Rightarrow> db \<Rightarrow> db" where
  "insert_order now d =
     (let i = next_rowid (orders_seq d) (map order_id (orders d)) in
      d\<lparr>orders := orders d @ [\<lparr>order_id = i, created_at = now\<rparr>], orders_seq := i\<rparr>)"

section \<open>The program\<close>

subsection \<open>Storage\<close>

definition utf8 :: "nat list \<Rightarrow> string" where
  "utf8 bs = map char_of bs"

definition seed_rows :: "(string \<times> string \<times> int \<times> string) list" where
  "seed_rows =
     [(utf8 [217, 135, 216, 175, 216, 179, 216, 170, 32, 216, 168, 219, 140, 226, 128, 140,
             216, 179, 219, 140, 217, 133],
       utf8 [218, 169, 219, 140, 217, 129, 219, 140, 216, 170, 32, 216, 181, 216, 175, 216,
             167, 219, 140, 32, 216, 180, 217, 129, 216, 167, 217, 129, 32, 216, 168, 216,
             167, 32, 216, 185, 217, 133, 216, 177, 32, 216, 168, 216, 167, 216, 170, 216,
             177, 219, 140, 32, 219, 178, 219, 176, 32, 216, 179, 216, 167, 216, 185, 216,
             170, 217, 135],
       1450000,
       ''https://images.unsplash.com/photo-1518441988334-5d2fede6e7e4?auto=format&fit=crop&w=600&q=80''),
      (utf8 [217, 132, 217, 190, 226, 128, 140, 216, 170, 216, 167, 217, 190, 32, 216, 179,
             216, 168, 218, 169],
       utf8 [217, 133, 217, 134, 216, 167, 216, 179, 216, 168, 32, 216, 168, 216, 177, 216,
             167, 219, 140, 32, 218, 169, 216, 167, 216, 177, 217, 135, 216, 167, 219, 140,
             32, 216, 177, 217, 136, 216, 178, 217, 133, 216, 177, 217, 135, 32, 217, 136,
             32, 216, 179, 217, 129, 216, 177],
       24800000,
       ''https://images.unsplash.com/photo-1517336714731-489689fd1ca8?auto=format&fit=crop&w=600&q=80''),
      (utf8 [216, 179, 216, 167, 216, 185, 216, 170, 32, 217, 135, 217, 136, 216, 180, 217,
             133, 217, 134, 216, 175],
       utf8 [216, 177, 216, 175, 219, 140, 216, 167, 216, 168, 219, 140, 32, 217, 129, 216,
             185, 216, 167, 217, 132, 219, 140, 216, 170, 226, 128, 140, 217, 135, 216, 167,
             219, 140, 32, 217, 136, 216, 177, 216, 178, 216, 180, 219, 140, 32, 217, 136,
             32, 216, 167, 216, 185, 217, 132, 216, 167, 217, 134, 226, 128, 140, 217, 135,
             216, 167],
       3950000,
       ''https://images.unsplash.com/photo-1511707171634-5f897ff02aa9?auto=format&fit=crop&w=600&q=80'')]"

text \<open>\<^verbatim>\<open>sqlite3.connect\<close> creates the file when it is missing. The new database has
  no table yet; since a database is written with its schema here, it is the one with the three
  tables empty, and the three \<^verbatim>\<open>CREATE TABLE IF NOT EXISTS\<close> statements of
  \<^verbatim>\<open>init_db\<close> change nothing in it.\<close>

definition get_connection :: "store \<Rightarrow> db" where
  "get_connection st =
     (case st of
        None \<Rightarrow> \<lparr>products = [], products_seq = 0, orders = [], orders_seq = 0,
                 order_items = []\<rparr>
      | Some d \<Rightarrow> d)"

definition init_db :: "store \<Rightarrow> store" where
  "init_db st =
     (let d = get_connection st;
          count = length (products d)
      in if count = 0 then Some (fold insert_product seed_rows d) else Some d)"

definition ensure_database :: "store \<Rightarrow> store" where
  "ensure_database st = (if st = None then init_db st else st)"

definition fetch_products :: "db \<Rightarrow> product list" where
  "fetch_products d = products d"

definition fetch_product :: "db \<Rightarrow> int \<Rightarrow> error + product option" where
  "fetch_product d product_id =
     (if sqlite_int_ok product_id
      then Inr (find (\<lambda>row. pid row = product_id) (products d))
      else Inl OverflowError)"

subsection \<open>Cart in the session\<close>

definition get_cart :: "session \<Rightarrow> cart" where
  "get_cart s = (case s ''cart'' of Some (PyDict cart) \<Rightarrow> cart | _ \<Rightarrow> [])"

definition save_cart :: "cart \<Rightarrow> session \<Rightarrow> session" where
  "save_cart cart s = s(''cart'' \<mapsto> PyDict cart)"

subsection \<open>Routes\<close>

definition url_for :: "string \<Rightarrow> string" where
  "url_for endpoint =
     (if endpoint = ''index'' then ''/''
      else if endpoint = ''view_cart'' then ''/cart''
      else if endpoint = ''add_to_cart'' then ''/cart/add''
      else if endpoint = ''remove_from_cart'' then ''/cart/remove''
      else if endpoint = ''checkout'' then ''/checkout''
      else [])"

definition index :: "db \<Rightarrow> session \<Rightarrow> error + response" where
  "index d s =
     (let catalogue = fetch_products d;
          cart = get_cart s
      in case py_sum (dict_values cart) (PyInt 0) of
           Inl e \<Rightarrow> Inl e
         | Inr cart_size \<Rightarrow> Inr (Index_html catalogue cart_size))"

definition product_detail :: "db \<Rightarrow> int \<Rightarrow> error + response" where
  "product_detail d product_id =
     (case fetch_product d product_id of
        Inl e \<Rightarrow> Inl e
      | Inr None \<Rightarrow> Inr Not_found_html
      | Inr (Some product) \<Rightarrow> Inr (Product_html product))"

text \<open>The loop of \<^verbatim>\<open>view_cart\<close> over \<^verbatim>\<open>cart.items()\<close>, with the list and the total
  it has built so far (\<^verbatim>\<open>products\<close> and \<^verbatim>\<open>total\<close> in the source, \<open>items\<close> and \<open>tot\<close> here).\<close>

fun view_cart_loop ::
  "db \<Rightarrow> cart \<Rightarrow> cart_line list \<Rightarrow> pyval \<Rightarrow> error + (cart_line list \<times> pyval)" where
  "view_cart_loop d [] items tot = Inr (items, tot)"
| "view_cart_loop d ((product_id, quantity) # rest) items tot =
     (case py_int product_id of
        Inl e \<Rightarrow> Inl e
      | Inr i \<Rightarrow>
          (case fetch_product d i of
             Inl e \<Rightarrow> Inl e
           | Inr None \<Rightarrow> view_cart_loop d rest items tot
           | Inr (Some product) \<Rightarrow>
               (case py_mul (PyInt (price product)) quantity of
                  Inl e \<Rightarrow> Inl e
                | Inr item_total \<Rightarrow>
                    (case py_add tot item_total of
                       Inl e \<Rightarrow> Inl e
                     | Inr tot' \<Rightarrow>
                         view_cart_loop d rest
                           (items @ [\<lparr>line_product = product, line_quantity = quantity,
                                     line_item_total = item_total\<rparr>])
                           tot'))))"

definition view_cart :: "db \<Rightarrow> session \<Rightarrow> error + response" where
  "view_cart d s =
     (let cart = get_cart s in
      case view_cart_loop d cart [] (PyInt 0) of
        Inl e \<Rightarrow> Inl e
      | Inr (items, tot) \<Rightarrow> Inr (Cart_html items tot))"

text \<open>\<^verbatim>\<open>request.form.get("product_id")\<close> is \<^verbatim>\<open>None\<close> for a form without the field.
  \<^verbatim>\<open>not product_id\<close> holds for \<^verbatim>\<open>None\<close> and for the empty string.\<close>

definition falsy :: "string option \<Rightarrow> bool" where
  "falsy v = (case v of None \<Rightarrow> True | Some str \<Rightarrow> str = [])"

definition add_to_cart :: "string option \<Rightarrow> session \<Rightarrow> error + response \<times> session" where
  "add_to_cart form_product_id s =
     (if falsy form_product_id then Inr (Redirect (url_for ''index''), s)
      else
        (let product_id = the form_product_id;
             cart = get_cart s
         in case py_add (dict_get cart product_id (PyInt 0)) (PyInt 1) of
              Inl e \<Rightarrow> Inl e
            | Inr quantity \<Rightarrow>
                (let cart = dict_set cart product_id quantity
                 in Inr (Redirect (url_for ''view_cart''), save_cart cart s))))"

definition remove_from_cart :: "string option \<Rightarrow> session \<Rightarrow> response \<times> session" where
  "remove_from_cart form_product_id s =
     (if falsy form_product_id then (Redirect (url_for ''view_cart''), s)
      else
        (let product_id = the form_product_id;
             cart = get_cart s;
             cart = (if dict_contains cart product_id then dict_pop cart product_id else cart)
         in (Redirect (url_for ''view_cart''), save_cart cart s)))"

text \<open>\<open>now\<close> is what SQLite's \<^verbatim>\<open>datetime('now')\<close> returns when the statement runs.\<close>

definition checkout :: "string \<Rightarrow> db \<Rightarrow> session \<Rightarrow> response \<times> db \<times> session" where
  "checkout now d s =
     (let cart = get_cart s in
      if cart = [] then (Redirect (url_for ''index''), d, s)
      else (Checkout_html, insert_order now d, s(''cart'' := None)))"

subsection \<open>One request\<close>

datatype request =
    GET_index
  | GET_product_detail nat
  | GET_view_cart
  | POST_add_to_cart "string option"
  | POST_remove_from_cart "string option"
  | POST_checkout

text \<open>
  \<^verbatim>\<open>ensure_database\<close> runs before every request, so every handler finds the file.
  A handler that raises leaves the session as it was. The URL converter
  \<^verbatim>\<open><int:product_id>\<close> only matches unsigned decimals.
\<close>

definition handle ::
  "string \<Rightarrow> request \<Rightarrow> store \<times> session \<Rightarrow> (error + response) \<times> store \<times> session" where
  "handle now req state =
     (case state of (st, s) \<Rightarrow>
        (let d = get_connection (ensure_database st) in
         case req of
           GET_index \<Rightarrow> (index d s, Some d, s)
         | GET_product_detail product_id \<Rightarrow> (product_detail d (int product_id), Some d, s)
         | GET_view_cart \<Rightarrow> (view_cart d s, Some d, s)
         | POST_add_to_cart f \<Rightarrow>
             (case add_to_cart f s of
                Inl e \<Rightarrow> (Inl e, Some d, s)
              | Inr (r, s') \<Rightarrow> (Inr r, Some d, s'))
         | POST_remove_from_cart f \<Rightarrow>
             (case remove_from_cart f s of (r, s') \<Rightarrow> (Inr r, Some d, s'))
         | POST_checkout \<Rightarrow>
             (case checkout now d s of (r, d', s') \<Rightarrow> (Inr r, Some d', s'))))"

section \<open>What the specification says, as definitions\<close>

text \<open>
  The cart of the specification maps product ids to integer quantities; \<open>cart_of\<close> is
  that cart as the session stores it. A cart entry resolves when its product id names a row
  of the catalogue. The total and the rendered list of the specification: the sum of unit
  price times quantity over the entries that resolve, and those entries in cart order.
\<close>

definition cart_of :: "(string \<times> int) list \<Rightarrow> cart" where
  "cart_of qs = map (\<lambda>(k, q). (k, PyInt q)) qs"

definition resolve :: "db \<Rightarrow> string \<Rightarrow> product option" where
  "resolve d product_id =
     (case py_int product_id of
        Inl e \<Rightarrow> None
      | Inr i \<Rightarrow> (case fetch_product d i of Inl e \<Rightarrow> None | Inr row \<Rightarrow> row))"

definition spec_total :: "db \<Rightarrow> (string \<times> int) list \<Rightarrow> int" where
  "spec_total d qs =
     sum_list (map (\<lambda>(k, q). case resolve d k of None \<Rightarrow> 0 | Some p \<Rightarrow> price p * q) qs)"

definition spec_items :: "db \<Rightarrow> (string \<times> int) list \<Rightarrow> cart_line list" where
  "spec_items d qs =
     concat (map (\<lambda>(k, q). case resolve d k of
                               None \<Rightarrow> []
                             | Some p \<Rightarrow> [\<lparr>line_product = p, line_quantity = PyInt q,
                                           line_item_total = PyInt (price p * q)\<rparr>]) qs)"

text \<open>A key that \<^verbatim>\<open>int\<close> accepts and SQLite can bind.\<close>

definition key_ok :: "string \<Rightarrow> bool" where
  "key_ok k = (case py_int k of Inl e \<Rightarrow> False | Inr i \<Rightarrow> sqlite_int_ok i)"

text \<open>The columns of a product row that the seed statement supplies.\<close>

definition row_of :: "product \<Rightarrow> string \<times> string \<times> int \<times> string" where
  "row_of p = (name p, description p, price p, image_url p)"

text \<open>A value that is an integer quantity, and a cart whose values all are.\<close>

definition is_quantity :: "pyval \<Rightarrow> bool" where
  "is_quantity v = (case v of PyInt q \<Rightarrow> True | _ \<Rightarrow> False)"

definition int_valued :: "cart \<Rightarrow> bool" where
  "int_valued c = list_all (\<lambda>(k, v). is_quantity v) c"

text \<open>The carts the routes build: a dict whose keys are non-empty and whose quantities are
  positive integers.\<close>

definition positive_quantity :: "pyval \<Rightarrow> bool" where
  "positive_quantity v = (case v of PyInt q \<Rightarrow> 0 < q | _ \<Rightarrow> False)"

definition cart_ok :: "cart \<Rightarrow> bool" where
  "cart_ok c = (is_dict c \<and> list_all (\<lambda>(k, v). k \<noteq> [] \<and> positive_quantity v) c)"

section \<open>Dictionaries\<close>

lemma dict_contains_iff: "dict_contains c k \<longleftrightarrow> k \<in> fst ` set c"
  by (induction c) auto

lemma dict_get_absent: "\<not> dict_contains c k \<Longrightarrow> dict_get c k dflt = dflt"
  by (induction c) auto

lemma dict_contains_set: "dict_contains (dict_set c k v) k' \<longleftrightarrow> k' = k \<or> dict_contains c k'"
  by (induction c) (auto split: if_splits)

lemma dict_get_set: "dict_get (dict_set c k v) k' dflt = (if k' = k then v else dict_get c k' dflt)"
  by (induction c) auto

lemma keys_dict_set: "fst ` set (dict_set c k v) = insert k (fst ` set c)"
  using dict_contains_set [of c k v] by (auto simp: dict_contains_iff)

lemma is_dict_set: "is_dict c \<Longrightarrow> is_dict (dict_set c k v)"
  unfolding is_dict_def
proof (induction c)
  case Nil
  then show ?case by simp
next
  case (Cons a c)
  obtain k' v' where a: "a = (k', v')" by (cases a)
  have "set (map fst (dict_set c k v)) = insert k (fst ` set c)"
    using keys_dict_set [of c k v] by simp
  with Cons a show ?case by auto
qed

text \<open>On a dict, \<^verbatim>\<open>pop\<close> leaves exactly the entries under the other keys.\<close>

lemma dict_pop_filter: "is_dict c \<Longrightarrow> dict_pop c k = filter (\<lambda>kv. fst kv \<noteq> k) c"
  unfolding is_dict_def
proof (induction c)
  case Nil
  then show ?case by simp
next
  case (Cons a c)
  obtain k' v' where a: "a = (k', v')" by (cases a)
  show ?case
  proof (cases "k' = k")
    case True
    with Cons.prems a have "\<forall>kv \<in> set c. fst kv \<noteq> k" by auto
    then have "filter (\<lambda>kv. fst kv \<noteq> k) c = c" by (simp add: filter_id_conv)
    with True a show ?thesis by simp
  next
    case False
    with Cons a show ?thesis by simp
  qed
qed

lemma dict_pop_absent: "\<not> dict_contains c k \<Longrightarrow> dict_pop c k = c"
  by (induction c) auto

lemma is_dict_pop: "is_dict c \<Longrightarrow> is_dict (dict_pop c k)"
  by (simp add: dict_pop_filter) (simp add: is_dict_def distinct_map_filter)

lemma dict_contains_pop:
  "is_dict c \<Longrightarrow> dict_contains (dict_pop c k) k' \<longleftrightarrow> k' \<noteq> k \<and> dict_contains c k'"
  by (auto simp: dict_pop_filter dict_contains_iff)

lemma list_all_dict_set: "list_all P c \<Longrightarrow> P (k, v) \<Longrightarrow> list_all P (dict_set c k v)"
  by (induction c) auto

lemma list_all_dict_pop: "list_all P c \<Longrightarrow> list_all P (dict_pop c k)"
  by (induction c) auto

lemma list_all_dict_get:
  "list_all (\<lambda>(k, v). P v) c \<Longrightarrow> P dflt \<Longrightarrow> P (dict_get c k dflt)"
  by (induction c) auto

section \<open>Arithmetic on values\<close>

lemma py_add_numbers:
  "as_int a = Some m \<Longrightarrow> as_int b = Some n \<Longrightarrow> py_add a b = Inr (PyInt (m + n))"
  by (cases a; cases b) (simp_all add: as_int_def)

lemma py_add_not_number: "as_int a = None \<Longrightarrow> py_add a (PyInt n) = Inl TypeError"
  by (cases a) (simp_all add: as_int_def)

lemma py_add_int_not_number: "as_int b = None \<Longrightarrow> py_add (PyInt m) b = Inl TypeError"
  by (cases b) (simp_all add: as_int_def)

lemma py_mul_ints: "py_mul (PyInt m) (PyInt n) = Inr (PyInt (m * n))"
  by (simp add: as_int_def)

lemma py_sum_ints:
  "py_sum (map PyInt ns) (PyInt acc) = Inr (PyInt (acc + sum_list ns))"
  by (induction ns arbitrary: acc) (simp_all add: as_int_def)

lemma dict_values_cart_of: "dict_values (cart_of qs) = map PyInt (map snd qs)"
  by (induction qs) (auto simp: dict_values_def cart_of_def)

lemma sum_list_pos:
  "xs \<noteq> [] \<Longrightarrow> list_all (\<lambda>x. 0 < x) xs \<Longrightarrow> 0 < sum_list (xs :: int list)"
proof (induction xs)
  case Nil
  then show ?case by simp
next
  case (Cons a xs)
  then have "0 \<le> sum_list xs" by (cases xs) auto
  with Cons.prems show ?case by simp
qed

section \<open>The session and the routes, step by step\<close>

lemma get_cart_save: "get_cart (save_cart c s) = c"
  by (simp add: get_cart_def save_cart_def)

lemma get_cart_cleared: "get_cart (s(''cart'' := None)) = []"
  by (simp add: get_cart_def)

lemma save_cart_twice: "save_cart c (save_cart c' s) = save_cart c s"
  by (simp add: save_cart_def)

lemma url_for_index: "url_for ''index'' = ''/''"
  by (simp add: url_for_def)

lemma url_for_view_cart: "url_for ''view_cart'' = ''/cart''"
  by (simp add: url_for_def)

lemma view_cart_empty: "get_cart s = [] \<Longrightarrow> view_cart d s = Inr (Cart_html [] (PyInt 0))"
  by (simp add: view_cart_def)

text \<open>Adding to a cart whose entry for the id is a number, or is not there, stores one
  more; on any other entry the addition raises and nothing is stored.\<close>

lemma add_to_cart_step:
  "p \<noteq> [] \<Longrightarrow> as_int (dict_get (get_cart s) p (PyInt 0)) = Some q \<Longrightarrow>
   add_to_cart (Some p) s =
     Inr (Redirect ''/cart'', save_cart (dict_set (get_cart s) p (PyInt (q + 1))) s)"
  using py_add_numbers [of "dict_get (get_cart s) p (PyInt 0)" q "PyInt 1" 1]
  by (simp add: add_to_cart_def falsy_def Let_def url_for_view_cart as_int_def)

lemma add_to_cart_raises:
  "p \<noteq> [] \<Longrightarrow> as_int (dict_get (get_cart s) p (PyInt 0)) = None \<Longrightarrow>
   add_to_cart (Some p) s = Inl TypeError"
  by (simp add: add_to_cart_def falsy_def Let_def py_add_not_number)

lemma remove_from_cart_step:
  "p \<noteq> [] \<Longrightarrow> remove_from_cart (Some p) s =
     (Redirect ''/cart'',
      save_cart (if dict_contains (get_cart s) p then dict_pop (get_cart s) p else get_cart s) s)"
  by (simp add: remove_from_cart_def falsy_def Let_def url_for_view_cart)

lemma remove_from_cart_cart:
  "p \<noteq> [] \<Longrightarrow> get_cart (snd (remove_from_cart (Some p) s))
     = (if dict_contains (get_cart s) p then dict_pop (get_cart s) p else get_cart s)"
  by (simp add: remove_from_cart_step get_cart_save)

subsection \<open>Every cart the routes build is well formed\<close>

lemma cart_ok_empty: "cart_ok (get_cart Map.empty)"
  by (simp add: cart_ok_def get_cart_def is_dict_def)

lemma positive_quantity_iff: "positive_quantity v \<longleftrightarrow> (\<exists>q. v = PyInt q \<and> 0 < q)"
  by (cases v) (simp_all add: positive_quantity_def)

lemma cart_ok_quantity:
  assumes "cart_ok c"
  shows "\<exists>q. dict_get c k (PyInt 0) = PyInt q \<and> 0 \<le> q"
proof -
  have "list_all (\<lambda>(k, v). \<exists>q. v = PyInt q \<and> 0 \<le> q) c"
    using assms by (fastforce simp: cart_ok_def list_all_iff positive_quantity_iff)
  from list_all_dict_get [of "\<lambda>v. \<exists>q. v = PyInt q \<and> 0 \<le> q" c "PyInt 0" k, OF this]
  show ?thesis by simp
qed

lemma cart_ok_add:
  assumes "cart_ok (get_cart s)"
  shows "\<exists>r s'. add_to_cart f s = Inr (r, s') \<and> cart_ok (get_cart s')"
proof (cases "falsy f")
  case True
  with assms show ?thesis by (simp add: add_to_cart_def)
next
  case False
  then obtain p where f: "f = Some p" and p: "p \<noteq> []"
    by (auto simp: falsy_def split: option.splits)
  from cart_ok_quantity [OF assms, of p] obtain q
    where q: "dict_get (get_cart s) p (PyInt 0) = PyInt q" "0 \<le> q" by blast
  then have "as_int (dict_get (get_cart s) p (PyInt 0)) = Some q" by (simp add: as_int_def)
  from add_to_cart_step [OF p this]
  have step: "add_to_cart (Some p) s =
     Inr (Redirect ''/cart'', save_cart (dict_set (get_cart s) p (PyInt (q + 1))) s)" .
  have "cart_ok (dict_set (get_cart s) p (PyInt (q + 1)))"
    using assms p q(2)
    by (simp add: cart_ok_def is_dict_set list_all_dict_set positive_quantity_def)
  with step f show ?thesis by (simp add: get_cart_save)
qed

lemma cart_ok_remove:
  assumes "cart_ok (get_cart s)"
  shows "cart_ok (get_cart (snd (remove_from_cart f s)))"
proof (cases "falsy f")
  case True
  with assms show ?thesis by (simp add: remove_from_cart_def)
next
  case False
  then obtain p where f: "f = Some p" and p: "p \<noteq> []"
    by (auto simp: falsy_def split: option.splits)
  with assms show ?thesis
    by (simp add: remove_from_cart_cart cart_ok_def is_dict_pop list_all_dict_pop)
qed

lemma cart_ok_checkout:
  assumes "cart_ok (get_cart s)"
  shows "cart_ok (get_cart (snd (snd (checkout now d s))))"
  using assms by (simp add: checkout_def get_cart_cleared) (simp add: cart_ok_def is_dict_def)

text \<open>One request takes a session with a well-formed cart to one with a well-formed cart.\<close>

lemma cart_ok_handle:
  assumes "cart_ok (get_cart s)"
  shows "cart_ok (get_cart (snd (snd (handle now req (st, s)))))"
proof (cases req)
  case (POST_add_to_cart f)
  then show ?thesis
    using cart_ok_add [OF assms, of f] by (auto simp: handle_def Let_def split: prod.splits)
next
  case (POST_remove_from_cart f)
  then show ?thesis
    using cart_ok_remove [OF assms, of f] by (auto simp: handle_def Let_def split: prod.splits)
next
  case POST_checkout
  then show ?thesis
    using cart_ok_checkout [OF assms, of now "get_connection (ensure_database st)"]
    by (auto simp: handle_def Let_def split: prod.splits)
qed (use assms in \<open>simp_all add: handle_def Let_def\<close>)

section \<open>Storage\<close>

lemma insert_product_products:
  "map row_of (products (insert_product row d)) = map row_of (products d) @ [row]"
  by (cases row) (simp add: insert_product_def Let_def row_of_def)

lemma fold_insert_product_rows:
  "map row_of (products (fold insert_product rows d)) = map row_of (products d) @ rows"
  by (induction rows arbitrary: d) (simp_all add: insert_product_products)

lemma insert_product_frame:
  "orders (insert_product row d) = orders d \<and> orders_seq (insert_product row d) = orders_seq d \<and>
   order_items (insert_product row d) = order_items d"
  by (cases row) (simp add: insert_product_def Let_def)

lemma fold_insert_product_frame:
  "orders (fold insert_product rows d) = orders d \<and>
   orders_seq (fold insert_product rows d) = orders_seq d \<and>
   order_items (fold insert_product rows d) = order_items d"
  by (induction rows arbitrary: d) (simp_all add: insert_product_frame)

lemma seed_rows_length: "length seed_rows = 3"
  by (simp add: seed_rows_def)

lemma init_db_products:
  "map row_of (products (the (init_db st))) =
     (if products (get_connection st) = [] then seed_rows
      else map row_of (products (get_connection st)))"
  by (simp add: init_db_def Let_def fold_insert_product_rows)

lemma init_db_Some: "\<exists>d. init_db st = Some d"
  by (simp add: init_db_def Let_def)

lemma init_db_nonempty: "products (the (init_db st)) \<noteq> []"
proof -
  have "length (map row_of (products (the (init_db st)))) \<noteq> 0"
    unfolding init_db_products using seed_rows_length by auto
  then show ?thesis by auto
qed

lemma init_db_twice: "init_db (init_db st) = init_db st"
proof -
  obtain d where d: "init_db st = Some d" using init_db_Some by blast
  with init_db_nonempty [of st] have "products d \<noteq> []" by simp
  then have "init_db (Some d) = Some d"
    by (simp add: init_db_def get_connection_def Let_def)
  with d show ?thesis by simp
qed

lemma init_db_funpow: "0 < n \<Longrightarrow> (init_db ^^ n) st = init_db st"
proof (induction n)
  case 0
  then show ?case by simp
next
  case (Suc n)
  show ?case
  proof (cases "n = 0")
    case True
    then show ?thesis by simp
  next
    case False
    with Suc.IH have "(init_db ^^ n) st = init_db st" by simp
    then show ?thesis by (simp add: init_db_twice)
  qed
qed

lemma ensure_database_twice: "ensure_database (ensure_database st) = ensure_database st"
  using init_db_Some [of st] by (auto simp: ensure_database_def)

lemma ensure_database_funpow: "0 < n \<Longrightarrow> (ensure_database ^^ n) st = ensure_database st"
proof (induction n)
  case 0
  then show ?case by simp
next
  case (Suc n)
  show ?case
  proof (cases "n = 0")
    case True
    then show ?thesis by simp
  next
    case False
    with Suc.IH have "(ensure_database ^^ n) st = ensure_database st" by simp
    then show ?thesis by (simp add: ensure_database_twice)
  qed
qed

lemma seeded_pids: "map pid (products (the (init_db None))) = [1, 2, 3]"
  by (simp add: init_db_def get_connection_def Let_def seed_rows_def insert_product_def
      next_rowid_def)

lemma seeded_prices: "map price (products (the (init_db None))) = [1450000, 24800000, 3950000]"
  by (simp add: init_db_def get_connection_def Let_def seed_rows_def insert_product_def
      next_rowid_def)

lemma init_db_order_items:
  "order_items (the (init_db st)) = order_items (get_connection st)"
  by (simp add: init_db_def Let_def fold_insert_product_frame)

lemma handle_order_items:
  "order_items (the (fst (snd (handle now req (st, s))))) = order_items (get_connection st)"
proof -
  have e: "order_items (get_connection (ensure_database st)) = order_items (get_connection st)"
    by (cases st)
       (simp_all add: ensure_database_def init_db_def Let_def get_connection_def
          fold_insert_product_frame)
  show ?thesis
    by (cases req)
       (simp_all add: handle_def Let_def e checkout_def insert_order_def
          split: prod.splits sum.splits)
qed

lemma find_None_pid: "find (\<lambda>row. pid row = i) ps = None \<longleftrightarrow> i \<notin> set (map pid ps)"
  by (auto simp: find_None_iff)

section \<open>The cart view\<close>

text \<open>On a cart of integer quantities whose keys all parse and fit, the loop returns what
  the specification describes; on any cart with a key that does not, it raises.\<close>

lemma view_cart_loop_ok:
  "list_all (\<lambda>(k, q). key_ok k) qs \<Longrightarrow>
   view_cart_loop d (cart_of qs) items (PyInt tot)
     = Inr (items @ spec_items d qs, PyInt (tot + spec_total d qs))"
proof (induction qs arbitrary: items tot)
  case Nil
  then show ?case by (simp add: spec_items_def spec_total_def cart_of_def)
next
  case (Cons a qs)
  obtain k q where a: "a = (k, q)" by (cases a)
  from Cons.prems a obtain i where i: "py_int k = Inr i" "sqlite_int_ok i"
    by (auto simp: key_ok_def split: sum.splits)
  from Cons.prems have rest: "list_all (\<lambda>(k, q). key_ok k) qs" by simp
  have f: "fetch_product d i = Inr (find (\<lambda>row. pid row = i) (products d))"
    using i by (simp add: fetch_product_def)
  have c: "cart_of ((k, q) # qs) = (k, PyInt q) # cart_of qs"
    by (simp add: cart_of_def)
  show ?case
  proof (cases "find (\<lambda>row. pid row = i) (products d)")
    case None
    then have "resolve d k = None" using i f by (simp add: resolve_def)
    then show ?thesis
      using i f None Cons.IH [OF rest, of items tot]
      by (simp add: a c spec_items_def spec_total_def)
  next
    case (Some p)
    then have r: "resolve d k = Some p" using i f by (simp add: resolve_def)
    have "view_cart_loop d (cart_of ((k, q) # qs)) items (PyInt tot)
      = view_cart_loop d (cart_of qs)
          (items @ [\<lparr>line_product = p, line_quantity = PyInt q,
                     line_item_total = PyInt (price p * q)\<rparr>])
          (PyInt (tot + price p * q))"
      using i f Some by (simp add: c as_int_def)
    also have "\<dots> = Inr ((items @ [\<lparr>line_product = p, line_quantity = PyInt q,
                     line_item_total = PyInt (price p * q)\<rparr>]) @ spec_items d qs,
                   PyInt ((tot + price p * q) + spec_total d qs))"
      by (rule Cons.IH [OF rest])
    finally show ?thesis
      using r by (simp add: a spec_items_def spec_total_def)
  qed
qed

lemma view_cart_total_parsable:
  "get_cart s = cart_of qs \<Longrightarrow> list_all (\<lambda>(k, q). key_ok k) qs \<Longrightarrow>
   view_cart d s = Inr (Cart_html (spec_items d qs) (PyInt (spec_total d qs)))"
  using view_cart_loop_ok [of qs d "[]" 0] by (simp add: view_cart_def)

lemma view_cart_loop_raises:
  "\<not> list_all (\<lambda>(k, v). key_ok k) cart \<Longrightarrow> \<exists>e. view_cart_loop d cart items tot = Inl e"
proof (induction cart arbitrary: items tot)
  case Nil
  then show ?case by simp
next
  case (Cons a cart)
  obtain k v where a: "a = (k, v)" by (cases a)
  show ?case
  proof (cases "key_ok k")
    case False
    then show ?thesis using a
      by (auto simp: key_ok_def fetch_product_def split: sum.splits)
  next
    case True
    with Cons.prems a have "\<not> list_all (\<lambda>(k, v). key_ok k) cart" by simp
    then have "\<And>items tot. \<exists>e. view_cart_loop d cart items tot = Inl e"
      by (rule Cons.IH)
    then show ?thesis using a
      by (auto split: sum.splits option.splits)
  qed
qed

lemma view_cart_raises:
  "\<not> list_all (\<lambda>(k, v). key_ok k) (get_cart s) \<Longrightarrow> \<exists>e. view_cart d s = Inl e"
  using view_cart_loop_raises [of "get_cart s" d "[]" "PyInt 0"] by (auto simp: view_cart_def)

lemma view_cart_loop_stale:
  "list_all (\<lambda>(k, v). \<exists>i. py_int k = Inr i \<and> fetch_product d i = Inr None) cart \<Longrightarrow>
   view_cart_loop d cart items tot = Inr (items, tot)"
  by (induction cart arbitrary: items tot) auto

text \<open>The badge of a cart of integer quantities is their sum.\<close>

lemma index_badge:
  "get_cart s = cart_of qs \<Longrightarrow>
   index d s = Inr (Index_html (products d) (PyInt (sum_list (map snd qs))))"
  using py_sum_ints [of "map snd qs" 0]
  by (simp add: index_def fetch_products_def dict_values_cart_of)

text \<open>For a cart of positive quantities whose ids are integers with no row in the
  catalogue, the badge is positive while the view renders no item and the total 0.\<close>

lemma badge_positive_on_stale_ids:
  assumes "get_cart s = cart_of qs" and "qs \<noteq> []"
    and "list_all (\<lambda>(k, q). 0 < q \<and> (\<exists>i. py_int k = Inr i \<and> fetch_product d i = Inr None)) qs"
  shows "index d s = Inr (Index_html (products d) (PyInt (sum_list (map snd qs)))) \<and>
         0 < sum_list (map snd qs) \<and> view_cart d s = Inr (Cart_html [] (PyInt 0))"
proof -
  have "list_all (\<lambda>x. 0 < x) (map snd qs)"
    using assms(3) by (auto simp: list_all_iff)
  then have pos: "0 < sum_list (map snd qs)"
    using assms(2) by (simp add: sum_list_pos)
  have "list_all (\<lambda>(k, v). \<exists>i. py_int k = Inr i \<and> fetch_product d i = Inr None) (cart_of qs)"
    using assms(3) by (auto simp: list_all_iff cart_of_def)
  then have "view_cart d s = Inr (Cart_html [] (PyInt 0))"
    using assms(1) by (simp add: view_cart_def view_cart_loop_stale)
  with pos index_badge [OF assms(1)] show ?thesis by simp
qed

subsection \<open>Concrete product ids\<close>

lemmas py_int_eval = py_int_def py_strip_def py_isspace_def py_isdigit_def digit_val_def
  to_ascii_def int_max_str_digits_def utf8_cont_def cont_bits_def py_todecimal_def
  decimal_blocks_def unicode_spaces_def utf8_def

lemma py_int_abc: "py_int ''abc'' = Inl ValueError"
  by (simp add: py_int_eval)

lemma py_int_1: "py_int ''1'' = Inr 1"
  by (simp add: py_int_eval)

lemma py_int_2: "py_int ''2'' = Inr 2"
  by (simp add: py_int_eval)

lemma py_int_999: "py_int ''999'' = Inr 999"
  by (simp add: py_int_eval)

lemma py_int_big: "py_int ''9223372036854775808'' = Inr 9223372036854775808"
  by (simp add: py_int_eval)

text \<open>A digit of another script is a digit: the Arabic-Indic three followed by the
  full-width one is 31. White space of any script is stripped: a no-break space, then
  \<^verbatim>\<open>-1_0\<close>, an ideographic space and a line feed is -10.\<close>

lemma py_int_unicode_digits: "py_int (utf8 [0xD9, 0xA3, 0xEF, 0xBC, 0x91]) = Inr 31"
  by (simp add: py_int_eval)

lemma py_int_unicode_spaces:
  "py_int (utf8 [0xC2, 0xA0, 0x2D, 0x31, 0x5F, 0x30, 0xE3, 0x80, 0x80, 0x0A]) = Inr (- 10)"
  by (simp add: py_int_eval)

text \<open>More than 4300 digits are refused, whatever their value: 999 after 4298 zeros or
  more is not an integer.\<close>

lemma utf8_decode_ascii:
  "list_all (\<lambda>c. (of_char c :: nat) < 128) s \<Longrightarrow> utf8_decode s = Some (map of_char s)"
  by (induction s) (simp_all add: Let_def)

lemma py_strip_id:
  "s \<noteq> [] \<Longrightarrow> \<not> py_isspace (hd s) \<Longrightarrow> \<not> py_isspace (last s) \<Longrightarrow> py_strip s = s"
proof -
  assume s: "s \<noteq> []" and h: "\<not> py_isspace (hd s)" and l: "\<not> py_isspace (last s)"
  from s h have 1: "dropWhile py_isspace s = s" by (cases s) simp_all
  from s l have 2: "dropWhile py_isspace (rev s) = rev s"
    by (cases "rev s") (simp_all add: last_rev [symmetric] hd_rev)
  show ?thesis by (simp add: py_strip_def 1 2)
qed

lemma py_int_digit_limit:
  assumes "4297 < n"
  shows "py_int (replicate n CHR ''0'' @ ''999'') = Inl ValueError"
proof -
  let ?s = "replicate n CHR ''0'' @ ''999''"
  let ?cps = "replicate n (48::nat) @ [57, 57, 57]"
  have d: "utf8_decode ?s = Some ?cps"
    using utf8_decode_ascii [of ?s] by (simp add: list_all_iff)
  have a: "map to_ascii ?cps = ?cps"
    by (simp add: to_ascii_def)
  obtain m where n: "n = Suc m" using assms by (cases n) simp_all
  have st: "py_strip ?cps = ?cps"
    by (rule py_strip_id) (simp_all add: n py_isspace_def)
  have c: "?cps = 48 # (replicate m 48 @ [57, 57, 57])"
    by (simp add: n)
  have f: "length (filter py_isdigit ?cps) = n + 3"
    by (simp add: py_isdigit_def)
  have "py_int ?s = (case py_strip (map to_ascii ?cps) of
             [] \<Rightarrow> Inl ValueError
           | c # cs \<Rightarrow>
               (let body = (if c = 45 \<or> c = 43 then cs else c # cs) in
                if int_max_str_digits < length (filter py_isdigit body) then Inl ValueError
                else if c = 45 then map_sum id uminus (parse_digits body 0)
                else parse_digits body 0))"
    by (simp only: py_int_def d option.case)
  also have "py_strip (map to_ascii ?cps) = ?cps"
    by (simp only: a st)
  also have "?cps = 48 # (replicate m 48 @ [57, 57, 57])"
    by (rule c)
  finally show ?thesis
    using f assms by (simp add: int_max_str_digits_def n py_isdigit_def)
qed

lemma fetch_999: "fetch_product (the (init_db None)) 999 = Inr None"
  by (simp add: fetch_product_def sqlite_int_ok_def find_None_pid seeded_pids)

text \<open>An id one beyond SQLite's largest integer parses and then cannot be bound.\<close>

lemma view_cart_overflow:
  "view_cart d (save_cart [(''9223372036854775808'', PyInt 1)] s) = Inl OverflowError"
  by (simp add: view_cart_def get_cart_save py_int_big fetch_product_def sqlite_int_ok_def)

text \<open>A quantity that is not a number: the badge and a second add raise for it, and so does
  the view when the product is in the catalogue.\<close>

lemma string_quantity_raises:
  "index d (save_cart [(''1'', PyStr ''x'')] s) = Inl TypeError \<and>
   add_to_cart (Some ''1'') (save_cart [(''1'', PyStr ''x'')] s) = Inl TypeError \<and>
   view_cart (the (init_db None)) (save_cart [(''1'', PyStr ''x'')] s) = Inl TypeError"
proof -
  have 1: "index d (save_cart [(''1'', PyStr ''x'')] s) = Inl TypeError"
    by (simp add: index_def get_cart_save dict_values_def as_int_def)
  have 2: "add_to_cart (Some ''1'') (save_cart [(''1'', PyStr ''x'')] s) = Inl TypeError"
    by (simp add: add_to_cart_raises get_cart_save as_int_def)
  have "find (\<lambda>row. pid row = 1) (products (the (init_db None))) \<noteq> None"
    by (simp add: find_None_pid seeded_pids)
  then obtain p where "fetch_product (the (init_db None)) 1 = Inr (Some p)"
    by (auto simp: fetch_product_def sqlite_int_ok_def)
  then have 3: "view_cart (the (init_db None)) (save_cart [(''1'', PyStr ''x'')] s) = Inl TypeError"
    by (simp add: view_cart_def get_cart_save py_int_1 as_int_def)
  from 1 2 3 show ?thesis by simp
qed

text \<open>The example of the specification: from a fresh store and an empty session, adding
  product 1 twice and product 2 once gives the cart \<^verbatim>\<open>{"1": 2, "2": 1}\<close> with the total
  \<open>1450000 * 2 + 24800000\<close>, and removing \<^verbatim>\<open>"1"\<close> leaves \<^verbatim>\<open>{"2": 1}\<close>.\<close>

lemma spec_example_cart:
  "add_to_cart (Some ''1'') Map.empty
     = Inr (Redirect ''/cart'', save_cart (cart_of [(''1'', 1)]) Map.empty) \<and>
   add_to_cart (Some ''1'') (save_cart (cart_of [(''1'', 1)]) Map.empty)
     = Inr (Redirect ''/cart'', save_cart (cart_of [(''1'', 2)]) Map.empty) \<and>
   add_to_cart (Some ''2'') (save_cart (cart_of [(''1'', 2)]) Map.empty)
     = Inr (Redirect ''/cart'', save_cart (cart_of [(''1'', 2), (''2'', 1)]) Map.empty)"
proof -
  have 1: "add_to_cart (Some ''1'') Map.empty
     = Inr (Redirect ''/cart'', save_cart (cart_of [(''1'', 1)]) Map.empty)"
    using add_to_cart_step [of "''1''" Map.empty 0]
    by (simp add: get_cart_def as_int_def cart_of_def)
  have 2: "add_to_cart (Some ''1'') (save_cart (cart_of [(''1'', 1)]) Map.empty)
     = Inr (Redirect ''/cart'', save_cart (cart_of [(''1'', 2)]) Map.empty)"
    using add_to_cart_step [of "''1''" "save_cart (cart_of [(''1'', 1)]) Map.empty" 1]
    by (simp add: get_cart_save as_int_def cart_of_def save_cart_twice)
  have 3: "add_to_cart (Some ''2'') (save_cart (cart_of [(''1'', 2)]) Map.empty)
     = Inr (Redirect ''/cart'', save_cart (cart_of [(''1'', 2), (''2'', 1)]) Map.empty)"
    using add_to_cart_step [of "''2''" "save_cart (cart_of [(''1'', 2)]) Map.empty" 0]
    by (simp add: get_cart_save as_int_def cart_of_def save_cart_twice)
  from 1 2 3 show ?thesis by simp
qed

lemma spec_example_total:
  "spec_total (the (init_db None)) [(''1'', 2), (''2'', 1)] = 27700000"
  by (simp add: spec_total_def resolve_def py_int_1 py_int_2 fetch_product_def sqlite_int_ok_def
      init_db_def get_connection_def Let_def seed_rows_def insert_product_def next_rowid_def)

lemma spec_example_view:
  "\<exists>items. view_cart (the (init_db None)) (save_cart (cart_of [(''1'', 2), (''2'', 1)]) Map.empty)
     = Inr (Cart_html items (PyInt 27700000)) \<and> length items = 2"
proof -
  have "list_all (\<lambda>(k, q). key_ok k) [(''1'', 2 :: int), (''2'', 1)]"
    by (simp add: key_ok_def py_int_1 py_int_2 sqlite_int_ok_def)
  then have "view_cart (the (init_db None)) (save_cart (cart_of [(''1'', 2), (''2'', 1)]) Map.empty)
     = Inr (Cart_html (spec_items (the (init_db None)) [(''1'', 2), (''2'', 1)])
                      (PyInt (spec_total (the (init_db None)) [(''1'', 2), (''2'', 1)])))"
    using view_cart_total_parsable
      [of "save_cart (cart_of [(''1'', 2), (''2'', 1)]) Map.empty" "[(''1'', 2), (''2'', 1)]"
          "the (init_db None)"]
    by (simp add: get_cart_save)
  moreover have "length (spec_items (the (init_db None)) [(''1'', 2), (''2'', 1)]) = 2"
    by (simp add: spec_items_def resolve_def py_int_1 py_int_2 fetch_product_def sqlite_int_ok_def
      init_db_def get_connection_def Let_def seed_rows_def insert_product_def next_rowid_def)
  ultimately show ?thesis by (simp add: spec_example_total)
qed

lemma spec_example_remove:
  "get_cart (snd (remove_from_cart (Some ''1'')
      (save_cart (cart_of [(''1'', 2), (''2'', 1)]) Map.empty)))
     = cart_of [(''2'', 1)]"
  by (simp add: remove_from_cart_cart get_cart_save cart_of_def)

section \<open>Checkout\<close>

text \<open>
  C1. For every non-empty cart, checkout inserts exactly one row into the orders table,
  stamped with the current time, and removes the cart from the session: the session has no
  cart key afterwards, a cart read returns the empty mapping, and the cart view shows no item.
  The products and order items are left as they were.
\<close>

theorem checkout_nonempty_cart:
  assumes "get_cart s \<noteq> []"
  shows "case checkout now d s of (r, d', s') \<Rightarrow>
           r = Checkout_html \<and>
           orders d' = orders d @ [\<lparr>order_id = next_rowid (orders_seq d) (map order_id (orders d)),
                                   created_at = now\<rparr>] \<and>
           length (orders d') = length (orders d) + 1 \<and>
           products d' = products d \<and> order_items d' = order_items d \<and>
           s' ''cart'' = None \<and> get_cart s' = [] \<and>
           view_cart d' s' = Inr (Cart_html [] (PyInt 0))"
  using assms
  by (simp add: checkout_def insert_order_def Let_def get_cart_cleared view_cart_empty)

theorem checkout_nonempty_cart_witness:
  "get_cart (Map.empty(''cart'' \<mapsto> PyDict [(''1'', PyInt 2)])) \<noteq> [] \<and>
   (case checkout ''2024-01-01 00:00:00'' (get_connection None)
           (Map.empty(''cart'' \<mapsto> PyDict [(''1'', PyInt 2)]))
    of (r, d', s') \<Rightarrow>
      r = Checkout_html \<and> orders d' = [\<lparr>order_id = 1, created_at = ''2024-01-01 00:00:00''\<rparr>] \<and>
      s' ''cart'' = None \<and> get_cart s' = [])"
proof -
  have h: "get_cart (Map.empty(''cart'' \<mapsto> PyDict [(''1'', PyInt 2)])) \<noteq> []"
    by (simp add: get_cart_def)
  show ?thesis
    using h checkout_nonempty_cart
      [OF h, where now = "''2024-01-01 00:00:00''" and d = "get_connection None"]
    by (simp add: get_connection_def next_rowid_def split: prod.splits)
qed

text \<open>
  C2. For every empty cart, checkout leaves the store as it is (no insert), leaves the
  session as it is, and answers with a redirect to the catalogue page \<^verbatim>\<open>/\<close>.
\<close>

theorem checkout_empty_cart:
  assumes "get_cart s = []"
  shows "checkout now d s = (Redirect ''/'', d, s)"
  using assms by (simp add: checkout_def url_for_index)

theorem checkout_empty_cart_witness:
  "get_cart (Map.empty(''cart'' \<mapsto> PyDict [])) = [] \<and>
   checkout ''2024-01-01 00:00:00'' (get_connection None) (Map.empty(''cart'' \<mapsto> PyDict []))
     = (Redirect ''/'', get_connection None, Map.empty(''cart'' \<mapsto> PyDict []))"
proof -
  have h: "get_cart (Map.empty(''cart'' \<mapsto> PyDict [])) = []" by (simp add: get_cart_def)
  show ?thesis using h checkout_empty_cart [OF h] by simp
qed

section \<open>Seeding\<close>

text \<open>
  C3. Initialising storage is idempotent: running \<^verbatim>\<open>init_db\<close> any number of times, once
  or more, gives the store that one run gives. A run inserts the three seed rows exactly when
  the products table is empty and otherwise leaves the store as it is, so from a fresh store
  the products table holds the three seed rows, with ids 1 to 3, however often it runs. The
  same holds for \<^verbatim>\<open>ensure_database\<close>, which on a fresh store is \<^verbatim>\<open>init_db\<close>.
\<close>

theorem init_db_seeds_once:
  assumes "0 < n"
  shows "(init_db ^^ n) st = init_db st \<and>
         map row_of (products (the ((init_db ^^ n) st))) =
           (if products (get_connection st) = [] then seed_rows
            else map row_of (products (get_connection st))) \<and>
         (products (get_connection st) \<noteq> [] \<longrightarrow> init_db st = Some (get_connection st)) \<and>
         map pid (products (the ((init_db ^^ n) None))) = [1, 2, 3] \<and>
         length seed_rows = 3 \<and>
         (ensure_database ^^ n) st = ensure_database st \<and>
         (ensure_database ^^ n) None = init_db None"
proof -
  have 1: "(init_db ^^ n) st = init_db st" using assms by (rule init_db_funpow)
  have 2: "(ensure_database ^^ n) st = ensure_database st"
    using assms by (rule ensure_database_funpow)
  have 3: "(ensure_database ^^ n) None = init_db None"
    using ensure_database_funpow [OF assms, of None] by (simp add: ensure_database_def)
  have 4: "products (get_connection st) \<noteq> [] \<longrightarrow> init_db st = Some (get_connection st)"
    by (simp add: init_db_def Let_def)
  have 5: "map pid (products (the ((init_db ^^ n) None))) = [1, 2, 3]"
    using init_db_funpow [OF assms, of None] by (simp add: seeded_pids)
  show ?thesis using 1 2 3 4 5 by (simp add: init_db_products seed_rows_length)
qed

theorem init_db_seeds_once_witness:
  "(0::nat) < 3 \<and> (init_db ^^ 3) None = init_db None \<and>
   map row_of (products (the ((init_db ^^ 3) None))) = seed_rows \<and>
   (ensure_database ^^ 3) None = init_db None \<and>
   products (get_connection (init_db None)) \<noteq> [] \<and>
   init_db (init_db None) = Some (get_connection (init_db None))"
proof -
  have h: "(0::nat) < 3" by simp
  have e: "products (get_connection (init_db None)) \<noteq> []"
    using init_db_Some [of None] init_db_nonempty [of None]
    by (auto simp: get_connection_def)
  show ?thesis
    using h e init_db_seeds_once [OF h, of None] init_db_seeds_once [OF h, of "init_db None"]
    by (auto simp: get_connection_def)
qed

section \<open>The cart\<close>

text \<open>
  The add route does nothing for an empty product id: each such request is answered with
  the redirect to the catalogue and the session as it was, so after two of them the cart
  still has no entry for it.
\<close>

theorem add_empty_id_twice_counterexample:
  "add_to_cart (Some []) Map.empty = Inr (Redirect ''/'', Map.empty) \<and>
   \<not> dict_contains (get_cart Map.empty) []"
  by (simp add: add_to_cart_def falsy_def get_cart_def url_for_index)

text \<open>
  C4, amended. For every cart and every non-empty product id \<open>p\<close>: adding \<open>p\<close> twice
  gives a cart in which \<open>p\<close> maps to 2 more than its quantity before (to 2 when it was
  absent); removing \<open>p\<close> gives the cart without the entry for \<open>p\<close>, whatever its quantity
  was, and with every other entry as it was, which is the same cart when \<open>p\<close> was absent.
  The quantity before is the number the cart holds for \<open>p\<close>.
\<close>

theorem add_twice_then_remove:
  assumes "p \<noteq> []" and "is_dict (get_cart s)"
  shows "(\<forall>q. as_int (dict_get (get_cart s) p (PyInt 0)) = Some q \<longrightarrow>
            (\<exists>s1 s2. add_to_cart (Some p) s = Inr (Redirect ''/cart'', s1) \<and>
                     add_to_cart (Some p) s1 = Inr (Redirect ''/cart'', s2) \<and>
                     dict_contains (get_cart s2) p \<and>
                     dict_get (get_cart s2) p (PyInt 0) = PyInt (q + 2))) \<and>
         (\<not> dict_contains (get_cart s) p \<longrightarrow>
            (\<exists>s1 s2. add_to_cart (Some p) s = Inr (Redirect ''/cart'', s1) \<and>
                     add_to_cart (Some p) s1 = Inr (Redirect ''/cart'', s2) \<and>
                     dict_get (get_cart s2) p (PyInt 0) = PyInt 2)) \<and>
         (let c' = get_cart (snd (remove_from_cart (Some p) s)) in
            \<not> dict_contains c' p \<and>
            c' = filter (\<lambda>kv. fst kv \<noteq> p) (get_cart s) \<and>
            (\<not> dict_contains (get_cart s) p \<longrightarrow> c' = get_cart s))"
proof -
  define c where "c = get_cart s"
  define c' where "c' = get_cart (snd (remove_from_cart (Some p) s))"
  have twice: "\<exists>s1 s2. add_to_cart (Some p) s = Inr (Redirect ''/cart'', s1) \<and>
                     add_to_cart (Some p) s1 = Inr (Redirect ''/cart'', s2) \<and>
                     dict_contains (get_cart s2) p \<and>
                     dict_get (get_cart s2) p (PyInt 0) = PyInt (q + 2)"
    if q: "as_int (dict_get c p (PyInt 0)) = Some q" for q
  proof -
    define s1 where "s1 = save_cart (dict_set c p (PyInt (q + 1))) s"
    define s2 where "s2 = save_cart (dict_set (get_cart s1) p (PyInt (q + 1 + 1))) s1"
    have 1: "add_to_cart (Some p) s = Inr (Redirect ''/cart'', s1)"
      using add_to_cart_step [OF assms(1), of s q] q by (simp add: c_def s1_def)
    have g1: "as_int (dict_get (get_cart s1) p (PyInt 0)) = Some (q + 1)"
      by (simp add: s1_def get_cart_save dict_get_set as_int_def)
    have 2: "add_to_cart (Some p) s1 = Inr (Redirect ''/cart'', s2)"
      using add_to_cart_step [OF assms(1) g1] by (simp add: s2_def)
    have 3: "dict_contains (get_cart s2) p"
      by (simp add: s2_def get_cart_save dict_contains_set)
    have 4: "dict_get (get_cart s2) p (PyInt 0) = PyInt (q + 2)"
      by (simp add: s2_def get_cart_save dict_get_set)
    from 1 2 3 4 show ?thesis by blast
  qed
  have absent: "as_int (dict_get c p (PyInt 0)) = Some 0" if "\<not> dict_contains c p"
    using that by (simp add: dict_get_absent as_int_def)
  have a2: "\<not> dict_contains c p \<longrightarrow>
            (\<exists>s1 s2. add_to_cart (Some p) s = Inr (Redirect ''/cart'', s1) \<and>
                     add_to_cart (Some p) s1 = Inr (Redirect ''/cart'', s2) \<and>
                     dict_get (get_cart s2) p (PyInt 0) = PyInt 2)"
    using twice [of 0] absent by auto
  have c': "c' = (if dict_contains c p then dict_pop c p else c)"
    using assms(1) by (simp add: c'_def c_def remove_from_cart_cart)
  have r2: "c' = filter (\<lambda>kv. fst kv \<noteq> p) c"
    using assms(2) dict_pop_absent [of c p] by (simp add: c' c_def dict_pop_filter)
  have r1: "\<not> dict_contains c' p"
    by (auto simp: r2 dict_contains_iff)
  have r3: "\<not> dict_contains c p \<longrightarrow> c' = c"
    by (simp add: c')
  show ?thesis
    using twice a2 r1 r2 r3 unfolding c_def c'_def Let_def by blast
qed

theorem add_twice_then_remove_witness:
  "''1'' \<noteq> [] \<and> ''3'' \<noteq> [] \<and>
   is_dict (get_cart (save_cart [(''1'', PyInt 5), (''2'', PyInt 1)] Map.empty)) \<and>
   as_int (dict_get (get_cart (save_cart [(''1'', PyInt 5), (''2'', PyInt 1)] Map.empty))
             ''1'' (PyInt 0)) = Some 5 \<and>
   \<not> dict_contains (get_cart (save_cart [(''1'', PyInt 5), (''2'', PyInt 1)] Map.empty)) ''3'' \<and>
   (\<exists>s1 s2. add_to_cart (Some ''1'') (save_cart [(''1'', PyInt 5), (''2'', PyInt 1)] Map.empty)
               = Inr (Redirect ''/cart'', s1) \<and>
            add_to_cart (Some ''1'') s1 = Inr (Redirect ''/cart'', s2) \<and>
            dict_get (get_cart s2) ''1'' (PyInt 0) = PyInt 7) \<and>
   (\<exists>s1 s2. add_to_cart (Some ''3'') (save_cart [(''1'', PyInt 5), (''2'', PyInt 1)] Map.empty)
               = Inr (Redirect ''/cart'', s1) \<and>
            add_to_cart (Some ''3'') s1 = Inr (Redirect ''/cart'', s2) \<and>
            dict_get (get_cart s2) ''3'' (PyInt 0) = PyInt 2) \<and>
   get_cart (snd (remove_from_cart (Some ''1'')
      (save_cart [(''1'', PyInt 5), (''2'', PyInt 1)] Map.empty)))
     = [(''2'', PyInt 1)] \<and>
   get_cart (snd (remove_from_cart (Some ''3'')
      (save_cart [(''1'', PyInt 5), (''2'', PyInt 1)] Map.empty)))
     = [(''1'', PyInt 5), (''2'', PyInt 1)]"
proof -
  let ?s = "save_cart [(''1'', PyInt 5), (''2'', PyInt 1)] Map.empty"
  have h1: "''1'' \<noteq> []" and h3: "''3'' \<noteq> []" by simp_all
  have c: "get_cart ?s = [(''1'', PyInt 5), (''2'', PyInt 1)]"
    by (simp add: get_cart_save)
  have h2: "is_dict (get_cart ?s)"
    by (simp add: c is_dict_def)
  have q: "as_int (dict_get (get_cart ?s) ''1'' (PyInt 0)) = Some 5"
    by (simp add: c as_int_def)
  have n: "\<not> dict_contains (get_cart ?s) ''3''"
    by (simp add: c)
  have a: "\<exists>s1 s2. add_to_cart (Some ''1'') ?s = Inr (Redirect ''/cart'', s1) \<and>
            add_to_cart (Some ''1'') s1 = Inr (Redirect ''/cart'', s2) \<and>
            dict_get (get_cart s2) ''1'' (PyInt 0) = PyInt 7"
    using add_twice_then_remove [OF h1 h2] q by fastforce
  have b: "\<exists>s1 s2. add_to_cart (Some ''3'') ?s = Inr (Redirect ''/cart'', s1) \<and>
            add_to_cart (Some ''3'') s1 = Inr (Redirect ''/cart'', s2) \<and>
            dict_get (get_cart s2) ''3'' (PyInt 0) = PyInt 2"
    using add_twice_then_remove [OF h3 h2] n by blast
  have r1: "get_cart (snd (remove_from_cart (Some ''1'') ?s)) = [(''2'', PyInt 1)]"
    using add_twice_then_remove [OF h1 h2] by (simp add: Let_def c)
  have r3: "get_cart (snd (remove_from_cart (Some ''3'') ?s)) = [(''1'', PyInt 5), (''2'', PyInt 1)]"
    using add_twice_then_remove [OF h3 h2] by (simp add: Let_def c)
  from h1 h3 h2 q n a b r1 r3 show ?thesis by blast
qed

text \<open>
  C10. Removing is idempotent: for every cart and every submitted product id (present,
  empty or missing), a second remove request answers as the first did and leaves the
  session, and so the cart, as the first left it.
\<close>

theorem remove_from_cart_idempotent:
  assumes "is_dict (get_cart s)"
  shows "remove_from_cart f (snd (remove_from_cart f s)) = remove_from_cart f s"
proof (cases "falsy f")
  case True
  then show ?thesis by (simp add: remove_from_cart_def)
next
  case False
  then obtain p where f: "f = Some p" and p: "p \<noteq> []"
    by (auto simp: falsy_def split: option.splits)
  define c' where "c' = (if dict_contains (get_cart s) p then dict_pop (get_cart s) p else get_cart s)"
  have once: "remove_from_cart (Some p) s = (Redirect ''/cart'', save_cart c' s)"
    using p by (simp add: remove_from_cart_step c'_def)
  have gone: "\<not> dict_contains c' p"
    using assms by (simp add: c'_def dict_contains_pop)
  have "remove_from_cart (Some p) (save_cart c' s) = (Redirect ''/cart'', save_cart c' s)"
    using p gone by (simp add: remove_from_cart_step get_cart_save save_cart_twice)
  with once f show ?thesis by simp
qed

theorem remove_from_cart_idempotent_witness:
  "is_dict (get_cart (Map.empty(''cart'' \<mapsto> PyDict [(''1'', PyInt 5), (''2'', PyInt 1)]))) \<and>
   remove_from_cart (Some ''1'')
     (snd (remove_from_cart (Some ''1'')
        (Map.empty(''cart'' \<mapsto> PyDict [(''1'', PyInt 5), (''2'', PyInt 1)]))))
   = (Redirect ''/cart'', Map.empty(''cart'' \<mapsto> PyDict [(''2'', PyInt 1)]))"
proof -
  have h: "is_dict (get_cart (Map.empty(''cart'' \<mapsto> PyDict [(''1'', PyInt 5), (''2'', PyInt 1)])))"
    by (simp add: get_cart_def is_dict_def)
  show ?thesis
    using h remove_from_cart_idempotent [OF h, of "Some ''1''"]
    by (simp add: remove_from_cart_def falsy_def Let_def get_cart_def save_cart_def url_for_def)
qed

section \<open>Reading the cart\<close>

text \<open>
  A dict that is stored under \<^verbatim>\<open>cart\<close> with a value that is no integer is malformed, and
  \<^verbatim>\<open>get_cart\<close> returns it as it is: not the empty mapping, and not a mapping to integer
  quantities.
\<close>

theorem get_cart_keeps_malformed_dict_counterexample:
  "get_cart (Map.empty(''cart'' \<mapsto> PyDict [(''1'', PyStr ''x'')])) = [(''1'', PyStr ''x'')] \<and>
   get_cart (Map.empty(''cart'' \<mapsto> PyDict [(''1'', PyStr ''x'')])) \<noteq> [] \<and>
   \<not> int_valued (get_cart (Map.empty(''cart'' \<mapsto> PyDict [(''1'', PyStr ''x'')])))"
  by (simp add: get_cart_def int_valued_def is_quantity_def)

text \<open>
  C6, amended. For every session state, \<^verbatim>\<open>get_cart\<close> returns the empty mapping when the
  session has no cart and when what it holds under that key is not a dict; otherwise it
  returns the stored dict as it is, whatever its values are. It is a total function: the
  lookup and the type test it is made of have no raising branch, so no session makes it raise.
\<close>

theorem get_cart_normalises:
  "(s ''cart'' = None \<longrightarrow> get_cart s = []) \<and>
   (\<forall>v. s ''cart'' = Some v \<and> (\<forall>c. v \<noteq> PyDict c) \<longrightarrow> get_cart s = []) \<and>
   (\<forall>c. s ''cart'' = Some (PyDict c) \<longrightarrow> get_cart s = c)"
  by (auto simp: get_cart_def split: option.splits pyval.splits)

theorem get_cart_normalises_witness:
  "get_cart Map.empty = [] \<and>
   get_cart (Map.empty(''cart'' \<mapsto> PyStr ''junk'')) = [] \<and>
   get_cart (Map.empty(''cart'' \<mapsto> PyList [PyInt 1])) = [] \<and>
   get_cart (Map.empty(''cart'' \<mapsto> PyDict [(''1'', PyInt 2)])) = [(''1'', PyInt 2)] \<and>
   get_cart (Map.empty(''cart'' \<mapsto> PyDict [(''1'', PyNone), (''abc'', PyStr ''x'')]))
     = [(''1'', PyNone), (''abc'', PyStr ''x'')]"
  using get_cart_normalises [of Map.empty]
    get_cart_normalises [of "Map.empty(''cart'' \<mapsto> PyStr ''junk'')"]
    get_cart_normalises [of "Map.empty(''cart'' \<mapsto> PyList [PyInt 1])"]
    get_cart_normalises [of "Map.empty(''cart'' \<mapsto> PyDict [(''1'', PyInt 2)])"]
    get_cart_normalises [of "Map.empty(''cart'' \<mapsto> PyDict [(''1'', PyNone), (''abc'', PyStr ''x'')])"]
  by simp

section \<open>The add route\<close>

text \<open>
  A POST to \<^verbatim>\<open>/cart/add\<close> whose form carries \<^verbatim>\<open>product_id\<close> with the empty string as
  its value is not redirected to \<^verbatim>\<open>/cart\<close>; and one for an id under which the session's
  cart holds a string raises \<^verbatim>\<open>TypeError\<close>.
\<close>

theorem post_cart_add_empty_id_counterexample:
  "fst (handle ''2024-01-01 00:00:00'' (POST_add_to_cart (Some [])) (None, Map.empty))
     \<noteq> Inr (Redirect ''/cart'') \<and>
   fst (handle ''2024-01-01 00:00:00'' (POST_add_to_cart (Some ''1''))
          (None, Map.empty(''cart'' \<mapsto> PyDict [(''1'', PyStr ''x'')])))
     = Inl TypeError"
proof -
  have 1: "add_to_cart (Some []) Map.empty = Inr (Redirect ''/'', Map.empty)"
    by (simp add: add_to_cart_def falsy_def url_for_index)
  have 2: "add_to_cart (Some ''1'') (Map.empty(''cart'' \<mapsto> PyDict [(''1'', PyStr ''x'')]))
             = Inl TypeError"
    by (rule add_to_cart_raises) (simp_all add: get_cart_def as_int_def)
  show ?thesis by (simp add: handle_def Let_def 1 2)
qed

text \<open>
  C7, amended. Every POST to \<^verbatim>\<open>/cart/add\<close> whose form field \<^verbatim>\<open>product_id\<close> is not
  empty, in a session whose cart holds a number or nothing under that id, is redirected to
  \<^verbatim>\<open>/cart\<close>; one whose field is empty or missing is redirected to the catalogue page
  \<^verbatim>\<open>/\<close> with the session as it was.
\<close>

theorem add_to_cart_redirect:
  "(product_id \<noteq> [] \<and> as_int (dict_get (get_cart s) product_id (PyInt 0)) \<noteq> None \<longrightarrow>
      map_sum id fst (add_to_cart (Some product_id) s) = Inr (Redirect ''/cart'') \<and>
      fst (handle now (POST_add_to_cart (Some product_id)) (st, s)) = Inr (Redirect ''/cart'')) \<and>
   add_to_cart (Some []) s = Inr (Redirect ''/'', s) \<and>
   add_to_cart None s = Inr (Redirect ''/'', s)"
proof -
  have 1: "map_sum id fst (add_to_cart (Some product_id) s) = Inr (Redirect ''/cart'') \<and>
      fst (handle now (POST_add_to_cart (Some product_id)) (st, s)) = Inr (Redirect ''/cart'')"
    if "product_id \<noteq> []" and "as_int (dict_get (get_cart s) product_id (PyInt 0)) \<noteq> None"
  proof -
    from that(2) obtain q where "as_int (dict_get (get_cart s) product_id (PyInt 0)) = Some q"
      by auto
    from add_to_cart_step [OF that(1) this] show ?thesis
      by (simp add: handle_def Let_def)
  qed
  have 2: "add_to_cart (Some []) s = Inr (Redirect ''/'', s)"
    by (simp add: add_to_cart_def falsy_def url_for_index)
  have 3: "add_to_cart None s = Inr (Redirect ''/'', s)"
    by (simp add: add_to_cart_def falsy_def url_for_index)
  from 1 2 3 show ?thesis by blast
qed

theorem add_to_cart_redirect_witness:
  "''1'' \<noteq> [] \<and> as_int (dict_get (get_cart Map.empty) ''1'' (PyInt 0)) \<noteq> None \<and>
   map_sum id fst (add_to_cart (Some ''1'') Map.empty) = Inr (Redirect ''/cart'') \<and>
   fst (handle ''2024-01-01 00:00:00'' (POST_add_to_cart (Some ''1'')) (None, Map.empty))
     = Inr (Redirect ''/cart'')"
proof -
  have h: "''1'' \<noteq> [] \<and> as_int (dict_get (get_cart Map.empty) ''1'' (PyInt 0)) \<noteq> None"
    by (simp add: get_cart_def as_int_def)
  show ?thesis
    using h add_to_cart_redirect
      [of "''1''" Map.empty "''2024-01-01 00:00:00''" None]
    by blast
qed

section \<open>Orders carry no contents\<close>

text \<open>
  C8. No operation inserts into the order_items table: initialisation and every request
  leave it as it was (empty, when they create the file). The store that checkout leaves
  does not depend on the cart: two non-empty carts give the same store, the one with the
  single order row for the current time added.
\<close>

theorem order_items_never_populated:
  "order_items (the (init_db st)) = order_items (get_connection st) \<and>
   order_items (the (fst (snd (handle now req (st, s))))) = order_items (get_connection st) \<and>
   order_items (get_connection None) = [] \<and>
   (get_cart s1 \<noteq> [] \<and> get_cart s2 \<noteq> [] \<longrightarrow>
      fst (snd (checkout now d s1)) = fst (snd (checkout now d s2)) \<and>
      fst (snd (checkout now d s1)) = insert_order now d)"
  by (simp add: handle_order_items init_db_order_items checkout_def)
     (simp add: get_connection_def)

theorem order_items_never_populated_witness:
  "get_cart (Map.empty(''cart'' \<mapsto> PyDict [(''1'', PyInt 2)])) \<noteq> [] \<and>
   get_cart (Map.empty(''cart'' \<mapsto> PyDict [(''2'', PyInt 7), (''3'', PyInt 1)])) \<noteq> [] \<and>
   fst (snd (checkout ''2024-01-01 00:00:00'' (get_connection None)
               (Map.empty(''cart'' \<mapsto> PyDict [(''1'', PyInt 2)]))))
   = fst (snd (checkout ''2024-01-01 00:00:00'' (get_connection None)
                 (Map.empty(''cart'' \<mapsto> PyDict [(''2'', PyInt 7), (''3'', PyInt 1)])))) \<and>
   order_items (the (fst (snd (handle ''2024-01-01 00:00:00'' POST_checkout
                      (None, Map.empty(''cart'' \<mapsto> PyDict [(''1'', PyInt 2)])))))) = []"
proof -
  have h: "get_cart (Map.empty(''cart'' \<mapsto> PyDict [(''1'', PyInt 2)])) \<noteq> [] \<and>
           get_cart (Map.empty(''cart'' \<mapsto> PyDict [(''2'', PyInt 7), (''3'', PyInt 1)])) \<noteq> []"
    by (simp add: get_cart_def)
  show ?thesis
    using h order_items_never_populated
      [where ?s1.0 = "Map.empty(''cart'' \<mapsto> PyDict [(''1'', PyInt 2)])"
         and ?s2.0 = "Map.empty(''cart'' \<mapsto> PyDict [(''2'', PyInt 7), (''3'', PyInt 1)])"
         and now = "''2024-01-01 00:00:00''" and d = "get_connection None"
         and st = None and req = POST_checkout
         and s = "Map.empty(''cart'' \<mapsto> PyDict [(''1'', PyInt 2)])"]
    by (simp add: get_connection_def)
qed

section \<open>The cart view and the badge\<close>

text \<open>What the first request leaves when a client with an empty session posts
  \<^verbatim>\<open>product_id=abc\<close> to \<^verbatim>\<open>/cart/add\<close> on a fresh store: the seeded store and the cart
  \<^verbatim>\<open>{"abc": 1}\<close>.\<close>

lemma after_adding_abc:
  "handle now (POST_add_to_cart (Some ''abc'')) (None, Map.empty)
     = (Inr (Redirect ''/cart''), init_db None, save_cart [(''abc'', PyInt 1)] Map.empty)"
proof -
  have "add_to_cart (Some ''abc'') Map.empty
          = Inr (Redirect ''/cart'', save_cart [(''abc'', PyInt 1)] Map.empty)"
    using add_to_cart_step [of "''abc''" Map.empty 0]
    by (simp add: get_cart_def as_int_def)
  moreover obtain d where "init_db None = Some d" using init_db_Some by blast
  ultimately show ?thesis
    by (simp add: handle_def Let_def ensure_database_def get_connection_def)
qed

lemma resolve_abc: "resolve d ''abc'' = None"
  by (simp add: resolve_def py_int_abc)

text \<open>
  C5. The claim is that for every cart the view's total is the sum of unit price times
  quantity over the entries that resolve, the others being left out. The view does compute
  that for every cart of integer quantities whose keys are integer literals that SQLite can
  bind (\<open>view_cart_total_parsable\<close>), and raises on every cart with another key
  (\<open>view_cart_raises\<close>). The add route stores any non-empty string as a key, so such a
  cart is one request away: after \<^verbatim>\<open>POST /cart/add\<close> with \<^verbatim>\<open>product_id=abc\<close> on a fresh
  store and session, \<^verbatim>\<open>GET /cart\<close> raises \<^verbatim>\<open>ValueError\<close> where the claim has an empty
  list and the total 0.
\<close>

theorem cart_view_fails_after_adding_non_numeric_id:
  "fst (handle ''2024-01-01 00:00:01'' GET_view_cart
          (snd (handle ''2024-01-01 00:00:00'' (POST_add_to_cart (Some ''abc'')) (None, Map.empty))))
     = Inl ValueError \<and>
   spec_items (the (init_db None)) [(''abc'', 1)] = [] \<and>
   spec_total (the (init_db None)) [(''abc'', 1)] = 0"
proof -
  have a: "snd (handle ''2024-01-01 00:00:00'' (POST_add_to_cart (Some ''abc'')) (None, Map.empty))
             = (init_db None, save_cart [(''abc'', PyInt 1)] Map.empty)"
    by (simp only: after_adding_abc snd_conv)
  have v: "fst (handle ''2024-01-01 00:00:01'' GET_view_cart
                  (init_db None, save_cart [(''abc'', PyInt 1)] Map.empty)) = Inl ValueError"
    by (simp add: handle_def Let_def view_cart_def get_cart_save py_int_abc)
  have s: "spec_items (the (init_db None)) [(''abc'', 1)] = [] \<and>
           spec_total (the (init_db None)) [(''abc'', 1)] = 0"
    by (simp add: spec_items_def spec_total_def resolve_abc)
  show ?thesis unfolding a using v s by simp
qed

text \<open>
  C9. The claim is that the badge counts every cart entry, also those whose product id does
  not resolve, so that a cart of such ids alone has a positive badge while the cart view
  renders no item and the total 0. The badge is that sum, and for ids that are integers
  with no row in the catalogue the view is as claimed (\<open>badge_positive_on_stale_ids\<close>).
  But after \<^verbatim>\<open>POST /cart/add\<close> with \<^verbatim>\<open>product_id=abc\<close> on a fresh store and session the
  cart holds one id, which does not resolve; the catalogue page shows the badge 1, and
  \<^verbatim>\<open>GET /cart\<close> raises \<^verbatim>\<open>ValueError\<close> where the claim has no item and the total 0.
\<close>

theorem badge_positive_but_cart_view_fails:
  "fst (handle ''2024-01-01 00:00:01'' GET_index
          (snd (handle ''2024-01-01 00:00:00'' (POST_add_to_cart (Some ''abc'')) (None, Map.empty))))
     = Inr (Index_html (products (the (init_db None))) (PyInt 1)) \<and>
   fst (handle ''2024-01-01 00:00:02'' GET_view_cart
          (snd (handle ''2024-01-01 00:00:00'' (POST_add_to_cart (Some ''abc'')) (None, Map.empty))))
     = Inl ValueError \<and>
   resolve (the (init_db None)) ''abc'' = None"
proof -
  obtain d where d: "init_db None = Some d" using init_db_Some by blast
  have a: "snd (handle ''2024-01-01 00:00:00'' (POST_add_to_cart (Some ''abc'')) (None, Map.empty))
             = (init_db None, save_cart [(''abc'', PyInt 1)] Map.empty)"
    by (simp only: after_adding_abc snd_conv)
  have i: "fst (handle ''2024-01-01 00:00:01'' GET_index
                  (init_db None, save_cart [(''abc'', PyInt 1)] Map.empty))
             = Inr (Index_html (products (the (init_db None))) (PyInt 1))"
    by (simp add: handle_def Let_def d ensure_database_def get_connection_def index_def
        fetch_products_def get_cart_save dict_values_def as_int_def)
  have v: "fst (handle ''2024-01-01 00:00:02'' GET_view_cart
                  (init_db None, save_cart [(''abc'', PyInt 1)] Map.empty)) = Inl ValueError"
    by (simp add: handle_def Let_def view_cart_def get_cart_save py_int_abc)
  show ?thesis unfolding a using i v by (simp add: resolve_abc)
qed

end
